theory Spec2Isabelle
  imports Main "HOL-Library.Word" "HOL-Library.Signed_Division" "HOL-Library.Monad_Syntax"
begin

section \<open>Machine types and C arithmetic\<close>

text \<open>
  The firmware runs on an ESP32 (ILP32): \<open>long\<close> and \<open>unsigned long\<close> are 32 bits wide.
  A \<open>long\<close> is read as two's complement (\<open>sint\<close>), compared with \<open><s\<close> and \<open>\<le>s\<close>.
  Values of \<open>time_t\<close> are only compared and handed to \<open>difftime\<close>; the program does no
  arithmetic on them, so they are kept as the integers they denote (seconds since the epoch),
  whatever the width of the toolchain's \<open>time_t\<close>.
\<close>

type_synonym long = "32 word"
type_synonym ulong = "32 word"
type_synonym uint8 = "8 word"
type_synonym time_t = int

text \<open>
  C division and remainder on \<open>long\<close> truncate towards zero. Every divisor in the program
  is a positive constant, so neither division by zero nor \<open>LONG_MIN / -1\<close> arises.
\<close>

definition long_div :: "long \<Rightarrow> long \<Rightarrow> long" where
  "long_div a b = word_of_int (sint a sdiv sint b)"

definition long_mod :: "long \<Rightarrow> long \<Rightarrow> long" where
  "long_mod a b = word_of_int (sint a smod sint b)"

text \<open>
  \<open>difftime(time1, time0)\<close> returns the \<open>double\<close> \<open>time1 - time0\<close>. The model keeps the
  doubles that hold an integer exactly: every integer below \<open>2^53\<close> in magnitude is a
  double, and the difference of two of them is exact when it is below \<open>2^53\<close> as well.
  Outside that range the library rounds; the model gives \<open>None\<close> there.
\<close>

definition difftime :: "time_t \<Rightarrow> time_t \<Rightarrow> int option" where
  "difftime time1 time0 =
     (if \<bar>time1\<bar> < 2 ^ 53 \<and> \<bar>time0\<bar> < 2 ^ 53 \<and> \<bar>time1 - time0\<bar> < 2 ^ 53
      then Some (time1 - time0) else None)"

text \<open>
  The cast \<open>(long) d\<close> of a double: the value itself when a \<open>long\<close> can hold it,
  undefined behaviour (\<open>None\<close>) otherwise.
\<close>

definition long_of_double :: "int \<Rightarrow> long option" where
  "long_of_double d =
     (if - (2 ^ 31) \<le> d \<and> d < 2 ^ 31 then Some (word_of_int d) else None)"

section \<open>Configuration\<close>

record TargetDate =
  year :: int
  month :: int
  day :: int
  hour :: int
  minute :: int
  second :: int

definition TARGET :: TargetDate where
  "TARGET = \<lparr>year = 2026, month = 4, day = 12, hour = 6, minute = 0, second = 0\<rparr>"

text \<open>\<open>struct tm\<close> of the C library.\<close>

record tm =
  tm_sec :: int
  tm_min :: int
  tm_hour :: int
  tm_mday :: int
  tm_mon :: int
  tm_year :: int
  tm_wday :: int
  tm_yday :: int
  tm_isdst :: int

section \<open>Countdown calculator\<close>

text \<open>
  The local \<open>target\<close> of \<open>computeHoursRemaining\<close>: zero-initialised, then filled from
  \<open>TARGET\<close>, with \<open>tm_isdst = -1\<close> so that the library decides on daylight saving.
\<close>

definition target_tm :: tm where
  "target_tm =
     \<lparr>tm_sec = second TARGET, tm_min = minute TARGET, tm_hour = hour TARGET,
      tm_mday = day TARGET, tm_mon = month TARGET - 1, tm_year = year TARGET - 1900,
      tm_wday = 0, tm_yday = 0, tm_isdst = - 1\<rparr>"

text \<open>
  \<open>computeHoursRemaining\<close> reads the clock (\<open>time(nullptr)\<close>, the argument \<open>now\<close>) and
  calls the C library's \<open>mktime\<close>, which interprets \<open>target\<close> in the time zone in force;
  \<open>mktime\<close> is an argument of the model. The result is \<open>-1\<close> while the clock is not
  set, \<open>None\<close> where the cast of the difference is undefined.
\<close>

definition computeHoursRemaining :: "(tm \<Rightarrow> time_t) \<Rightarrow> time_t \<Rightarrow> long option" where
  "computeHoursRemaining mktime now =
     (if now < 100000 then Some (- 1)
      else
        let target = target_tm;
            targetTime = mktime target
        in if targetTime \<le> now then Some 0
           else
             case difftime targetTime now of
               None \<Rightarrow> None
             | Some d \<Rightarrow>
                 (case long_of_double d of
                    None \<Rightarrow> None
                  | Some seconds \<Rightarrow> Some (long_div seconds 3600)))"

section \<open>Program state and effects\<close>

datatype DisplayMode = MODE_HOURS | MODE_DAYS

datatype printf_arg = Arg_ld long | Arg_s string

text \<open>
  Calls into the collaborators (display driver, serial port, WiFi and time services) are
  recorded, in order, in a trace. Default arguments of the driver (\<open>length = 4\<close>,
  \<open>pos = 0\<close>) are not recorded.
\<close>

datatype event =
    Display_setBrightness uint8 bool
  | Display_clear
  | Display_setSegments "uint8 list"
  | Display_showNumberDec long bool
  | Serial_begin nat
  | Serial_println string
  | Serial_print string
  | Serial_println_ip "32 word"
  | Serial_printf string "printf_arg list"
  | WiFi_mode_STA
  | WiFi_begin string string
  | Setenv string string int
  | Tzset
  | ConfigTime int int string string
  | Delay nat

text \<open>The global variables of the program, and the trace of its calls.\<close>

record state =
  lastPrint :: ulong
  lastReportedHours :: long
  lastNtpSync :: ulong
  lastModeSwitch :: ulong
  displayMode :: DisplayMode
  displayInitialized :: bool
  trace :: "event list"

definition initial_state :: state where
  "initial_state =
     \<lparr>lastPrint = 0, lastReportedHours = - 1, lastNtpSync = 0, lastModeSwitch = 0,
      displayMode = MODE_HOURS, displayInitialized = False, trace = []\<rparr>"

definition emit :: "event \<Rightarrow> state \<Rightarrow> state" where
  "emit e s = s\<lparr>trace := trace s @ [e]\<rparr>"

section \<open>Display formatter\<close>

definition initDisplay :: "state \<Rightarrow> state" where
  "initDisplay s =
     (if displayInitialized s then s
      else (emit Display_clear (emit (Display_setBrightness 0x0f True) s))
             \<lparr>displayInitialized := True\<rparr>)"

definition showValueOnDisplay :: "long \<Rightarrow> state \<Rightarrow> state" where
  "showValueOnDisplay val s0 =
     (let s = (if \<not> displayInitialized s0 then initDisplay s0 else s0)
      in if val <s 0 then
           let SEG_DASH = 0x40;
               data = [SEG_DASH, SEG_DASH, SEG_DASH, SEG_DASH]
           in emit (Display_setSegments data) s
         else
           let val' = (if 9999 <s val then 9999 else val)
           in emit (Display_showNumberDec val' False) s)"

definition updateDisplay :: "long \<Rightarrow> state \<Rightarrow> state" where
  "updateDisplay hoursRemaining s =
     (if hoursRemaining <s 0 then showValueOnDisplay (- 1) s
      else
        let days = long_div hoursRemaining 24
        in if displayMode s = MODE_HOURS then showValueOnDisplay (hoursRemaining - 1) s
           else showValueOnDisplay days s)"

section \<open>Reporter\<close>

text \<open>
  The format string of the status line, byte for byte as in the source file (the bytes
  between \<open>(\<close> and the second \<open>%ld\<close> are not ASCII).
\<close>

definition RESULT_FORMAT :: string where
  "RESULT_FORMAT =
     ''[RESULT] Hours left until 2026-04-12 06:00: %ld ('' @
     [CHR 0xC3, CHR 0xA2, CHR 0xE2, CHR 0x80, CHR 0xB0, CHR 0xCB, CHR 0x86] @
     '' %ld days %ld h)'' @ [CHR 0x0A]"

text \<open>
  \<open>reportIfNeeded\<close>, given the clock reading and the \<open>mktime\<close> that its call of
  \<open>computeHoursRemaining\<close> meets.
\<close>

definition reportIfNeeded :: "(tm \<Rightarrow> time_t) \<Rightarrow> time_t \<Rightarrow> bool \<Rightarrow> state \<Rightarrow> state option" where
  "reportIfNeeded mktime now force s =
     (case computeHoursRemaining mktime now of
        None \<Rightarrow> None
      | Some hours \<Rightarrow>
          if hours <s 0 then
            let s1 = (if force then emit (Serial_println ''[INFO] Waiting for time sync...'') s
                      else s)
            in Some (updateDisplay (- 1) s1)
          else if force \<or> hours \<noteq> lastReportedHours s then
            let days = long_div hours 24;
                remHours = long_mod hours 24;
                s1 = emit (Serial_printf RESULT_FORMAT
                             [Arg_ld (hours - 1), Arg_ld days, Arg_ld remHours]) s;
                s2 = s1\<lparr>lastReportedHours := hours\<rparr>
            in Some (updateDisplay hours s2)
          else Some s)"

section \<open>The C library's \<open>mktime\<close> under a POSIX time-zone rule\<close>

text \<open>
  \<open>connectWiFi\<close> sets \<open>TZ\<close> to \<open>CET-1CEST,M3.5.0/2,M10.5.0/3\<close>. The library function
  \<open>mktime\<close> is not part of the repository; it is modelled here after POSIX for a rule
  \<open>std offset dst,start/time,end/time\<close> whose dates have the form \<open>Mm.w.d\<close> (weekday
  \<open>d\<close>, Sunday being 0, of week \<open>w\<close> of month \<open>m\<close>, week 5 being the last), for a
  broken-down time whose fields lie in their calendar ranges, as those of \<open>target\<close> do.
  Offsets are in seconds and are added to local time to give UTC.
\<close>

record tz_date =
  rule_month :: int
  rule_week :: int
  rule_day :: int
  rule_time :: int

record posix_tz =
  std_offset :: int
  dst_offset :: int
  dst_start :: tz_date
  dst_end :: tz_date

definition TZ_Budapest :: posix_tz where
  "TZ_Budapest =
     \<lparr>std_offset = - 3600, dst_offset = - 7200,
      dst_start = \<lparr>rule_month = 3, rule_week = 5, rule_day = 0, rule_time = 2 * 3600\<rparr>,
      dst_end = \<lparr>rule_month = 10, rule_week = 5, rule_day = 0, rule_time = 3 * 3600\<rparr>\<rparr>"

definition is_leap :: "int \<Rightarrow> bool" where
  "is_leap y = (y mod 4 = 0 \<and> (y mod 100 \<noteq> 0 \<or> y mod 400 = 0))"

definition days_in_month :: "int \<Rightarrow> int \<Rightarrow> int" where
  "days_in_month y m =
     (if m = 2 then (if is_leap y then 29 else 28)
      else if m = 4 \<or> m = 6 \<or> m = 9 \<or> m = 11 then 30 else 31)"

text \<open>Days from 1970-01-01 to the day \<open>d\<close> of month \<open>m\<close> (1 to 12) of year \<open>y\<close>.\<close>

definition days_from_civil :: "int \<Rightarrow> int \<Rightarrow> int \<Rightarrow> int" where
  "days_from_civil y m d =
     (let y' = (if m \<le> 2 then y - 1 else y);
          era = y' div 400;
          yoe = y' - era * 400;
          doy = (153 * (if 2 < m then m - 3 else m + 9) + 2) div 5 + d - 1;
          doe = yoe * 365 + yoe div 4 - yoe div 100 + doy
      in era * 146097 + doe - 719468)"

text \<open>Day of the week of a day number, Sunday being 0 (1970-01-01 was a Thursday).\<close>

definition weekday :: "int \<Rightarrow> int" where
  "weekday n = (n + 4) mod 7"

definition rule_day_number :: "int \<Rightarrow> tz_date \<Rightarrow> int" where
  "rule_day_number y r =
     (let first = days_from_civil y (rule_month r) 1;
          n = first + (rule_day r - weekday first) mod 7 + 7 * (rule_week r - 1)
      in if first + days_in_month y (rule_month r) \<le> n then n - 7 else n)"

text \<open>
  With \<open>tm_isdst < 0\<close> the library decides whether daylight saving applies to the given
  wall-clock time: it does from the moment the clocks have been put forward until the
  hour that is repeated when they are put back (standard time is assumed for that hour).
  A non-negative \<open>tm_isdst\<close> is taken at its word.
\<close>

definition mktime_tz :: "posix_tz \<Rightarrow> tm \<Rightarrow> time_t" where
  "mktime_tz tz t =
     (let y = tm_year t + 1900;
          wall = days_from_civil y (tm_mon t + 1) (tm_mday t) * 86400
                   + tm_hour t * 3600 + tm_min t * 60 + tm_sec t;
          shift = std_offset tz - dst_offset tz;
          forward = rule_day_number y (dst_start tz) * 86400 + rule_time (dst_start tz) + shift;
          back = rule_day_number y (dst_end tz) * 86400 + rule_time (dst_end tz) - shift;
          isdst = (if tm_isdst t < 0 then
                     (if forward \<le> back then forward \<le> wall \<and> wall < back
                      else forward \<le> wall \<or> wall < back)
                   else 0 < tm_isdst t)
      in wall + (if isdst then dst_offset tz else std_offset tz))"

section \<open>Network, time service and the polling loop\<close>

definition WIFI_SSID :: string where
  "WIFI_SSID = ''WIFISSID''"

definition WIFI_PASSWORD :: string where
  "WIFI_PASSWORD = ''WIFIPASS''"

definition PRINT_INTERVAL_MS :: ulong where
  "PRINT_INTERVAL_MS = 60 * 1000"

definition NTP_RESYNC_INTERVAL_MS :: ulong where
  "NTP_RESYNC_INTERVAL_MS = 6 * 60 * 60 * 1000"

definition DISPLAY_MODE_DURATION_MS :: ulong where
  "DISPLAY_MODE_DURATION_MS = 15000"

text \<open>
  What the collaborators answer is an input of the model: each function takes a record of
  the readings it makes, one field for each place of the source that reads \<open>millis()\<close>,
  \<open>WiFi.status()\<close> (as the truth value of \<open>WiFi.status() == WL_CONNECTED\<close>) or the
  clock. A field is ignored on the paths that do not reach its place.
\<close>

record wifi_readings =
  connected_at_entry :: bool
  start_ms :: ulong
  polls :: "(bool \<times> ulong) list"
  connected_after :: bool
  local_ip :: "32 word"
  sync_ms :: ulong

text \<open>
  The waiting loop of \<open>connectWiFi\<close>. Each evaluation of its condition takes the next
  pair of readings (\<open>WiFi.status()\<close>, \<open>millis()\<close>); the result is \<open>None\<close> when the
  readings end while the condition still holds.
\<close>

fun waitForWiFi :: "ulong \<Rightarrow> (bool \<times> ulong) list \<Rightarrow> state \<Rightarrow> state option" where
  "waitForWiFi start [] s = None"
| "waitForWiFi start ((connected, ms) # rest) s =
     (if \<not> connected \<and> ms - start < 20000
      then waitForWiFi start rest (emit (Serial_print ''.'') (emit (Delay 500) s))
      else Some s)"

definition connectWiFi :: "wifi_readings \<Rightarrow> state \<Rightarrow> state option" where
  "connectWiFi r s =
     (if connected_at_entry r then Some s
      else do {
        let s1 = emit (Serial_printf
                   (''[INFO] Connecting to WiFi SSID '' @ [CHR 0x27] @ ''%s'' @ [CHR 0x27] @
                    ''...'' @ [CHR 0x0A]) [Arg_s WIFI_SSID]) s;
        let s2 = emit WiFi_mode_STA s1;
        let s3 = emit (WiFi_begin WIFI_SSID WIFI_PASSWORD) s2;
        let start = start_ms r;
        s4 \<leftarrow> waitForWiFi start (polls r) s3;
        let s5 = emit (Serial_println []) s4;
        if connected_after r then do {
          let s6 = emit (Serial_print ''[INFO] WiFi connected. IP: '') s5;
          let s7 = emit (Serial_println_ip (local_ip r)) s6;
          let s8 = emit (Setenv ''TZ'' ''CET-1CEST,M3.5.0/2,M10.5.0/3'' 1) s7;
          let s9 = emit Tzset s8;
          let s10 = emit (ConfigTime 0 0 ''pool.ntp.org'' ''time.nist.gov'') s9;
          Some (s10\<lparr>lastNtpSync := sync_ms r\<rparr>)
        } else
          Some (emit (Serial_println ''[ERROR] WiFi connection failed.'') s5)
      })"

record resync_readings =
  resync_now :: time_t
  resync_connected :: bool
  retry_check_ms :: ulong
  periodic_check_ms :: ulong
  resync_ms :: ulong

definition ensureTimeResync :: "resync_readings \<Rightarrow> state \<Rightarrow> state" where
  "ensureTimeResync r s =
     (let now = resync_now r;
          timeValid = (100000 \<le> now)
      in if resync_connected r then
           if \<not> timeValid \<and> 15000 < retry_check_ms r - lastNtpSync s then
             (emit (ConfigTime 0 0 ''pool.ntp.org'' ''time.nist.gov'')
                (emit (Serial_println ''[INFO] Retrying initial NTP sync...'') s))
               \<lparr>lastNtpSync := resync_ms r\<rparr>
           else if NTP_RESYNC_INTERVAL_MS < periodic_check_ms r - lastNtpSync s then
             (emit (ConfigTime 0 0 ''pool.ntp.org'' ''time.nist.gov'')
                (emit (Serial_println ''[INFO] Periodic NTP resync...'') s))
               \<lparr>lastNtpSync := resync_ms r\<rparr>
           else s
         else s)"

record setup_readings =
  setup_wifi :: wifi_readings
  setup_print_ms :: ulong
  setup_mode_ms :: ulong

text \<open>The function \<open>setup()\<close> (the name alone is a keyword of Isabelle).\<close>

definition setup_fn :: "setup_readings \<Rightarrow> state \<Rightarrow> state option" where
  "setup_fn r s = do {
     let s1 = emit (Serial_begin 115200) s;
     let s2 = emit (Delay 200) s1;
     let s3 = emit (Serial_println []) s2;
     let s4 = emit (Serial_println ''Booting...'') s3;
     let s5 = initDisplay s4;
     let s6 = updateDisplay (- 1) s5;
     s7 \<leftarrow> connectWiFi (setup_wifi r) s6;
     let s8 = s7\<lparr>lastPrint := setup_print_ms r\<rparr>;
     Some (s8\<lparr>lastModeSwitch := setup_mode_ms r\<rparr>)
   }"

text \<open>
  A reading of the clock by \<open>computeHoursRemaining\<close>: the value of \<open>time(nullptr)\<close> and
  the \<open>mktime\<close> of that moment (the time zone changes when \<open>connectWiFi\<close> sets it).
\<close>

record clock_reading =
  clock_mktime :: "tm \<Rightarrow> time_t"
  clock_now :: time_t

record loop_readings =
  loop_connected :: bool
  loop_wifi :: wifi_readings
  loop_resync :: resync_readings
  loop_ms :: ulong
  report_clock :: clock_reading
  switch_clock :: clock_reading
  forced_clock :: clock_reading

definition loop :: "loop_readings \<Rightarrow> state \<Rightarrow> state option" where
  "loop r s = do {
     s1 \<leftarrow> (if \<not> loop_connected r then connectWiFi (loop_wifi r) s else Some s);
     let s2 = ensureTimeResync (loop_resync r) s1;
     let nowMs = loop_ms r;
     s3 \<leftarrow> (if PRINT_INTERVAL_MS \<le> nowMs - lastPrint s2 then do {
              s' \<leftarrow> reportIfNeeded (clock_mktime (report_clock r)) (clock_now (report_clock r))
                      False s2;
              Some (s'\<lparr>lastPrint := nowMs\<rparr>)
            } else Some s2);
     s4 \<leftarrow> (if DISPLAY_MODE_DURATION_MS \<le> nowMs - lastModeSwitch s3 then do {
              let s' = s3\<lparr>displayMode :=
                          (if displayMode s3 = MODE_HOURS then MODE_DAYS else MODE_HOURS)\<rparr>;
              let s'' = s'\<lparr>lastModeSwitch := nowMs\<rparr>;
              hrs \<leftarrow> computeHoursRemaining (clock_mktime (switch_clock r))
                       (clock_now (switch_clock r));
              Some (updateDisplay hrs s'')
            } else Some s3);
     s5 \<leftarrow> (if lastReportedHours s4 <s 0
            then reportIfNeeded (clock_mktime (forced_clock r)) (clock_now (forced_clock r))
                   True s4
            else Some s4);
     Some (emit (Delay 1000) s5)
   }"

text \<open>The program: \<open>setup()\<close> once, then \<open>loop\<close> again and again.\<close>

fun run :: "loop_readings list \<Rightarrow> state \<Rightarrow> state option" where
  "run [] s = Some s"
| "run (r # rs) s = (case loop r s of None \<Rightarrow> None | Some s' \<Rightarrow> run rs s')"

definition program :: "setup_readings \<Rightarrow> loop_readings list \<Rightarrow> state option" where
  "program r rs = (case setup_fn r initial_state of None \<Rightarrow> None | Some s \<Rightarrow> run rs s)"

section \<open>An example run\<close>

text \<open>
  Readings of one run: in \<open>setup()\<close> the network comes up at the second poll; in a pass
  of \<open>loop()\<close> one minute later the clock is still unset when the periodic report reads
  it and set (2026-04-10 06:00:00 in Budapest) from then on.
\<close>

definition example_setup :: setup_readings where
  "example_setup =
     \<lparr>setup_wifi =
        \<lparr>connected_at_entry = False, start_ms = 250, polls = [(False, 251), (True, 760)],
         connected_after = True, local_ip = 0xC0A80117, sync_ms = 790\<rparr>,
      setup_print_ms = 800, setup_mode_ms = 800\<rparr>"

definition example_loop :: loop_readings where
  "example_loop =
     \<lparr>loop_connected = True,
      loop_wifi =
        \<lparr>connected_at_entry = True, start_ms = 0, polls = [], connected_after = True,
         local_ip = 0xC0A80117, sync_ms = 0\<rparr>,
      loop_resync =
        \<lparr>resync_now = 0, resync_connected = True, retry_check_ms = 60790,
         periodic_check_ms = 60790, resync_ms = 60795\<rparr>,
      loop_ms = 60800,
      report_clock = \<lparr>clock_mktime = mktime_tz TZ_Budapest, clock_now = 61\<rparr>,
      switch_clock = \<lparr>clock_mktime = mktime_tz TZ_Budapest, clock_now = 1775793600\<rparr>,
      forced_clock = \<lparr>clock_mktime = mktime_tz TZ_Budapest, clock_now = 1775793600\<rparr>\<rparr>"

section \<open>The time zone in force\<close>

text \<open>
  The zone that \<open>mktime\<close> meets is the value of the environment variable \<open>TZ\<close>, and
  the calls that change it are in the trace. Two calls of the program do:
  \<^item> \<open>setenv("TZ", v, overwrite)\<close>; of the values only the rule that \<open>connectWiFi\<close>
    passes is interpreted, any other leaves the zone of the model as it was;
  \<^item> \<open>configTime(gmtOffset_sec, daylightOffset_sec, ...)\<close>. This function belongs to
    the arduino-esp32 core (\<open>esp32-hal-time.c\<close>), not to the repository. After starting
    the time service it calls the core's \<open>setTimeZone(-gmtOffset_sec, daylightOffset_sec)\<close>,
    which sets \<open>TZ\<close> to the fixed offsets \<open>UTC<h>DST<h'>\<close> it is given and calls
    \<open>tzset()\<close>: standard time \<open>-gmtOffset_sec\<close> and daylight-saving time
    \<open>-gmtOffset_sec - daylightOffset_sec\<close> seconds from UTC. The value names no
    transition dates, so the C library takes its default ones (\<open>M3.2.0/2\<close> and
    \<open>M11.1.0/2\<close>), which have no effect when the two offsets are equal.
  Before any of these calls \<open>TZ\<close> is unset and local time is UTC.
\<close>

definition TZ_unset :: posix_tz where
  "TZ_unset =
     \<lparr>std_offset = 0, dst_offset = 0,
      dst_start = \<lparr>rule_month = 3, rule_week = 2, rule_day = 0, rule_time = 2 * 3600\<rparr>,
      dst_end = \<lparr>rule_month = 11, rule_week = 1, rule_day = 0, rule_time = 2 * 3600\<rparr>\<rparr>"

fun tz_event :: "event \<Rightarrow> posix_tz \<Rightarrow> posix_tz" where
  "tz_event (Setenv name v overwrite) tz =
     (if name = ''TZ'' \<and> v = ''CET-1CEST,M3.5.0/2,M10.5.0/3'' \<and> overwrite \<noteq> 0
      then TZ_Budapest else tz)"
| "tz_event (ConfigTime gmtOffset_sec daylightOffset_sec server1 server2) tz =
     TZ_unset\<lparr>std_offset := - gmtOffset_sec,
              dst_offset := - gmtOffset_sec - daylightOffset_sec\<rparr>"
| "tz_event e tz = tz"

definition tz_of_trace :: "event list \<Rightarrow> posix_tz" where
  "tz_of_trace es = fold tz_event es TZ_unset"

section \<open>Reading the trace\<close>

text \<open>The arguments of the status lines (the \<open>printf\<close> calls with \<open>RESULT_FORMAT\<close>) of a trace.\<close>

fun status_args :: "event \<Rightarrow> printf_arg list option" where
  "status_args (Serial_printf fmt args) = (if fmt = RESULT_FORMAT then Some args else None)"
| "status_args _ = None"

definition status_lines :: "event list \<Rightarrow> printf_arg list list" where
  "status_lines es = List.map_filter status_args es"

section \<open>Arithmetic of \<open>long\<close>\<close>

lemma sint_long_of_int:
  "- (2 ^ 31) \<le> d \<Longrightarrow> d < 2 ^ 31 \<Longrightarrow> sint (word_of_int d :: long) = d"
  by (simp add: sint_sbintrunc' signed_take_bit_int_eq_self)

lemma sint_long_bounds: "- (2 ^ 31) \<le> sint (a :: long)" "sint (a :: long) < 2 ^ 31"
  using sint_ge [of a] sint_lt [of a] by simp_all

lemma int_div_le_self: "0 \<le> (a::int) \<Longrightarrow> 0 < b \<Longrightarrow> a div b \<le> a"
  using zdiv_mono2 [of a 1 b] by simp

lemma long_div_nonneg:
  assumes a: "0 \<le> sint a" and b: "0 < sint b"
  shows "sint (long_div a b) = sint a div sint b"
proof -
  have s: "sint a sdiv sint b = sint a div sint b"
    using a b by (simp add: signed_divide_int_def sgn_if)
  have u: "sint a div sint b \<le> sint a"
    using a b by (rule int_div_le_self)
  have l: "0 \<le> sint a div sint b"
    using a b by (simp add: pos_imp_zdiv_nonneg_iff)
  have "sint (word_of_int (sint a div sint b) :: long) = sint a div sint b"
    using l u sint_long_bounds(2) [of a] by (intro sint_long_of_int) simp_all
  then show ?thesis by (simp add: long_div_def s)
qed

lemma long_mod_nonneg:
  assumes a: "0 \<le> sint a" and b: "0 < sint b"
  shows "sint (long_mod a b) = sint a mod sint b"
proof -
  have s: "sint a smod sint b = sint a mod sint b"
    using a b by (simp add: signed_modulo_int_def sgn_if)
  have u: "sint a mod sint b \<le> sint a"
    using a b by (simp add: zmod_le_nonneg_dividend)
  have l: "0 \<le> sint a mod sint b"
    using b by simp
  have "sint (word_of_int (sint a mod sint b) :: long) = sint a mod sint b"
    using l u sint_long_bounds(2) [of a] by (intro sint_long_of_int) simp_all
  then show ?thesis by (simp add: long_mod_def s)
qed

lemma sint_long_pred:
  assumes "0 \<le> sint (a :: long)"
  shows "sint (a - 1) = sint a - 1"
proof -
  have "a - 1 = word_of_int (sint a - 1)" by simp
  moreover have "sint (word_of_int (sint a - 1) :: long) = sint a - 1"
    using assms sint_long_bounds(2) [of a] by (intro sint_long_of_int) simp_all
  ultimately show ?thesis by simp
qed

lemma sint_clamp: "sint (if 9999 <s val then 9999 else val :: long) = min (sint val) 9999"
  by (simp add: word_sless_alt min_def)

section \<open>The countdown calculator\<close>

lemma compute_before_target:
  assumes "100000 \<le> now" and "now < mktime target_tm" and "mktime target_tm < 2 ^ 31"
  shows "computeHoursRemaining mktime now =
           Some (long_div (word_of_int (mktime target_tm - now)) 3600)"
  using assms
  by (simp add: computeHoursRemaining_def difftime_def long_of_double_def Let_def)

lemma compute_before_target_sint:
  assumes "100000 \<le> now" and "now < mktime target_tm" and "mktime target_tm < 2 ^ 31"
  shows "sint (long_div (word_of_int (mktime target_tm - now)) 3600) =
           (mktime target_tm - now) div 3600"
proof -
  let ?d = "mktime target_tm - now"
  have d: "0 < ?d" "?d < 2 ^ 31" using assms by simp_all
  then have sd: "sint (word_of_int ?d :: long) = ?d"
    by (intro sint_long_of_int) simp_all
  have "sint (long_div (word_of_int ?d) 3600) =
          sint (word_of_int ?d :: long) div sint (3600 :: long)"
    by (rule long_div_nonneg) (use sd d in simp_all)
  then show ?thesis by (simp only: sd) simp
qed

lemma compute_Some_nonneg:
  assumes "100000 \<le> now" and "computeHoursRemaining mktime now = Some h"
  shows "0 \<le> sint h"
proof (cases "mktime target_tm \<le> now")
  case True
  then show ?thesis using assms by (simp add: computeHoursRemaining_def)
next
  case False
  let ?d = "mktime target_tm - now"
  from False assms obtain seconds where
    s: "long_of_double ?d = Some seconds" and h: "h = long_div seconds 3600"
    by (auto simp: computeHoursRemaining_def difftime_def Let_def
             split: if_splits option.splits)
  from s have r: "- (2 ^ 31) \<le> ?d" "?d < 2 ^ 31" and e: "seconds = word_of_int ?d"
    by (auto simp: long_of_double_def split: if_splits)
  have sd: "sint seconds = ?d" unfolding e using r by (rule sint_long_of_int)
  have "sint (long_div seconds 3600) = sint seconds div sint (3600 :: long)"
    by (rule long_div_nonneg) (use sd False in simp_all)
  then show ?thesis using sd False by (simp add: h pos_imp_zdiv_nonneg_iff)
qed

lemma compute_defined:
  assumes "mktime target_tm < 2 ^ 31"
  shows "\<exists>h. computeHoursRemaining mktime now = Some h"
proof (cases "100000 \<le> now \<and> now < mktime target_tm")
  case True
  then show ?thesis using compute_before_target [of now mktime] assms by simp
next
  case False
  then show ?thesis by (auto simp: computeHoursRemaining_def)
qed

lemma mktime_target: "mktime_tz TZ_Budapest target_tm = 1775966400"
  by (simp add: mktime_tz_def TZ_Budapest_def target_tm_def TARGET_def days_from_civil_def
        rule_day_number_def weekday_def days_in_month_def is_leap_def Let_def)

lemma compute_Budapest:
  assumes "100000 \<le> now" and "now < 1775966400"
  shows "computeHoursRemaining (mktime_tz TZ_Budapest) now =
           Some (long_div (word_of_int (1775966400 - now)) 3600)"
  using compute_before_target [of now "mktime_tz TZ_Budapest"] assms
  by (simp add: mktime_target)

text \<open>
  C1: while the clock is synchronized (\<open>now\<close> at or above the threshold 100000) and
  strictly before the target instant, \<open>computeHoursRemaining\<close> returns the floor of
  \<open>(target - now) / 3600\<close>, the difference taken in seconds. The target instant is what
  \<open>mktime\<close> makes of \<open>target\<close>; it is taken to lie before 2038 (below \<open>2^31\<close>), as
  2026-04-12 does in every time zone, so that the difference fits a \<open>long\<close>.
\<close>

theorem computeHoursRemaining_floor:
  assumes "100000 \<le> now" and "now < mktime target_tm" and "mktime target_tm < 2 ^ 31"
  shows "\<exists>h. computeHoursRemaining mktime now = Some h \<and>
             sint h = (mktime target_tm - now) div 3600"
  using compute_before_target [of now mktime] compute_before_target_sint [of now mktime] assms
  by simp

theorem computeHoursRemaining_floor_witness:
  "100000 \<le> (1775800000 :: int) \<and>
   1775800000 < mktime_tz TZ_Budapest target_tm \<and>
   mktime_tz TZ_Budapest target_tm < 2 ^ 31 \<and>
   (\<exists>h. computeHoursRemaining (mktime_tz TZ_Budapest) 1775800000 = Some h \<and>
        sint h = (mktime_tz TZ_Budapest target_tm - 1775800000) div 3600) \<and>
   (mktime_tz TZ_Budapest target_tm - 1775800000) div 3600 = 46"
  using computeHoursRemaining_floor [of 1775800000 "mktime_tz TZ_Budapest"]
  by (simp add: mktime_target)

text \<open>
  C2: with a synchronized clock at or after the target instant the result is exactly 0;
  and whenever the clock is synchronized the result is non-negative: every result is, and
  there is a result when the target instant lies before 2038.
\<close>

theorem computeHoursRemaining_nonneg:
  assumes "100000 \<le> now"
  shows "(mktime target_tm \<le> now \<longrightarrow> computeHoursRemaining mktime now = Some 0) \<and>
         (\<forall>h. computeHoursRemaining mktime now = Some h \<longrightarrow> 0 \<le> sint h) \<and>
         (mktime target_tm < 2 ^ 31 \<longrightarrow> (\<exists>h. computeHoursRemaining mktime now = Some h))"
proof (intro conjI impI allI)
  assume "mktime target_tm \<le> now"
  then show "computeHoursRemaining mktime now = Some 0"
    using assms by (simp add: computeHoursRemaining_def)
next
  fix h assume "computeHoursRemaining mktime now = Some h"
  with assms show "0 \<le> sint h" by (rule compute_Some_nonneg)
next
  assume "mktime target_tm < 2 ^ 31"
  then show "\<exists>h. computeHoursRemaining mktime now = Some h"
    by (rule compute_defined)
qed

theorem computeHoursRemaining_nonneg_witness:
  "100000 \<le> (1775966401 :: int) \<and>
   mktime_tz TZ_Budapest target_tm \<le> 1775966401 \<and>
   mktime_tz TZ_Budapest target_tm < 2 ^ 31 \<and>
   computeHoursRemaining (mktime_tz TZ_Budapest) 1775966401 = Some 0 \<and>
   0 \<le> sint (0 :: long)"
  using computeHoursRemaining_nonneg [of 1775966401 "mktime_tz TZ_Budapest"]
  by (simp add: mktime_target)

text \<open>
  C3: \<open>computeHoursRemaining\<close> returns the sentinel \<open>-1\<close> exactly when the clock reads
  less than 100000 seconds since the epoch. At or above the threshold it never does: it
  returns a value (the target instant lying before 2038), and that value is not negative.
\<close>

theorem computeHoursRemaining_unsynced_iff:
  "(computeHoursRemaining mktime now = Some (- 1)) = (now < 100000) \<and>
   (100000 \<le> now \<longrightarrow> mktime target_tm < 2 ^ 31 \<longrightarrow>
      (\<exists>h. computeHoursRemaining mktime now = Some h \<and> h \<noteq> - 1 \<and> 0 \<le>s h))"
proof (intro conjI impI)
  show "(computeHoursRemaining mktime now = Some (- 1)) = (now < 100000)"
  proof
    assume a: "computeHoursRemaining mktime now = Some (- 1)"
    show "now < 100000"
    proof (rule ccontr)
      assume "\<not> now < 100000"
      then have "0 \<le> sint (- 1 :: long)"
        using a compute_Some_nonneg [of now mktime "- 1"] by simp
      then show False by simp
    qed
  next
    assume "now < 100000"
    then show "computeHoursRemaining mktime now = Some (- 1)"
      by (simp add: computeHoursRemaining_def)
  qed
next
  assume n: "100000 \<le> now" and "mktime target_tm < 2 ^ 31"
  then obtain h where h: "computeHoursRemaining mktime now = Some h"
    using compute_defined [of mktime now] by blast
  with n have p: "0 \<le> sint h" by (rule compute_Some_nonneg)
  then have "h \<noteq> - 1" by auto
  with h p show "\<exists>h. computeHoursRemaining mktime now = Some h \<and> h \<noteq> - 1 \<and> 0 \<le>s h"
    by (auto simp: word_sle_eq)
qed

theorem computeHoursRemaining_unsynced_iff_witness:
  "(99999 :: int) < 100000 \<and>
   computeHoursRemaining (mktime_tz TZ_Budapest) 99999 = Some (- 1) \<and>
   100000 \<le> (100000 :: int) \<and> mktime_tz TZ_Budapest target_tm < 2 ^ 31 \<and>
   (\<exists>h. computeHoursRemaining (mktime_tz TZ_Budapest) 100000 = Some h \<and> h \<noteq> - 1 \<and>
        0 \<le>s h) \<and>
   computeHoursRemaining (mktime_tz TZ_Budapest) 100000 = Some 493296"
proof -
  have "computeHoursRemaining (mktime_tz TZ_Budapest) 100000 = Some 493296"
    using compute_Budapest [of 100000] by (simp add: long_div_def signed_divide_int_def)
  then show ?thesis
    using computeHoursRemaining_unsynced_iff [of "mktime_tz TZ_Budapest" 99999]
      computeHoursRemaining_unsynced_iff [of "mktime_tz TZ_Budapest" 100000]
    by (simp add: mktime_target)
qed

text \<open>
  C7: for synchronized instants \<open>now1 \<le> now2\<close>, both strictly before the target instant
  (which lies before 2038), the result at \<open>now2\<close> is at most the result at \<open>now1\<close>, and
  both results are non-negative.
\<close>

theorem computeHoursRemaining_antitone:
  assumes "100000 \<le> now1" and "now1 \<le> now2" and "now2 < mktime target_tm"
    and "mktime target_tm < 2 ^ 31"
  shows "\<exists>h1 h2. computeHoursRemaining mktime now1 = Some h1 \<and>
                 computeHoursRemaining mktime now2 = Some h2 \<and>
                 sint h2 \<le> sint h1 \<and> 0 \<le> sint h2 \<and> 0 \<le> sint h1"
proof -
  let ?h1 = "long_div (word_of_int (mktime target_tm - now1)) 3600"
  let ?h2 = "long_div (word_of_int (mktime target_tm - now2)) 3600"
  have c1: "computeHoursRemaining mktime now1 = Some ?h1"
    using compute_before_target [of now1 mktime] assms by simp
  have c2: "computeHoursRemaining mktime now2 = Some ?h2"
    using compute_before_target [of now2 mktime] assms by simp
  have v1: "sint ?h1 = (mktime target_tm - now1) div 3600"
    using compute_before_target_sint [of now1 mktime] assms by simp
  have v2: "sint ?h2 = (mktime target_tm - now2) div 3600"
    using compute_before_target_sint [of now2 mktime] assms by simp
  have "(mktime target_tm - now2) div 3600 \<le> (mktime target_tm - now1) div 3600"
    using assms by (intro zdiv_mono1) simp_all
  moreover have "0 \<le> (mktime target_tm - now2) div 3600"
    using assms by (simp add: pos_imp_zdiv_nonneg_iff)
  ultimately show ?thesis using c1 c2 v1 v2 by simp
qed

theorem computeHoursRemaining_antitone_witness:
  "100000 \<le> (1775790000 :: int) \<and> (1775790000 :: int) \<le> 1775880000 \<and>
   1775880000 < mktime_tz TZ_Budapest target_tm \<and>
   mktime_tz TZ_Budapest target_tm < 2 ^ 31 \<and>
   (\<exists>h1 h2. computeHoursRemaining (mktime_tz TZ_Budapest) 1775790000 = Some h1 \<and>
            computeHoursRemaining (mktime_tz TZ_Budapest) 1775880000 = Some h2 \<and>
            sint h2 \<le> sint h1 \<and> 0 \<le> sint h2 \<and> 0 \<le> sint h1)"
  using computeHoursRemaining_antitone [of 1775790000 1775880000 "mktime_tz TZ_Budapest"]
  by (simp add: mktime_target)

section \<open>The display formatter\<close>

lemma initDisplay_again: "(if \<not> displayInitialized s then initDisplay s else s) = initDisplay s"
  by (simp add: initDisplay_def)

lemma showValueOnDisplay_negative:
  "val <s 0 \<Longrightarrow>
   showValueOnDisplay val s =
     emit (Display_setSegments [0x40, 0x40, 0x40, 0x40]) (initDisplay s)"
  by (simp add: showValueOnDisplay_def initDisplay_again Let_def)

lemma showValueOnDisplay_number:
  "\<not> val <s 0 \<Longrightarrow>
   showValueOnDisplay val s =
     emit (Display_showNumberDec (if 9999 <s val then 9999 else val) False) (initDisplay s)"
  by (simp add: showValueOnDisplay_def initDisplay_again Let_def)

lemma updateDisplay_negative:
  "hours <s 0 \<Longrightarrow>
   updateDisplay hours s = emit (Display_setSegments [0x40, 0x40, 0x40, 0x40]) (initDisplay s)"
  by (simp add: updateDisplay_def showValueOnDisplay_negative)

text \<open>
  C4: in hours mode, for a computed value \<open>hours \<ge> 0\<close>, the display is sent the number
  \<open>hours - 1\<close>, clamped above to 9999; for \<open>hours = 0\<close> that number is negative and the
  dashes are sent instead.
\<close>

theorem updateDisplay_hours_mode:
  assumes "displayMode s = MODE_HOURS" and "0 \<le>s hours"
  shows "(hours = 0 \<longrightarrow>
            updateDisplay hours s =
              emit (Display_setSegments [0x40, 0x40, 0x40, 0x40]) (initDisplay s)) \<and>
         (hours \<noteq> 0 \<longrightarrow>
            (\<exists>n. updateDisplay hours s =
                   emit (Display_showNumberDec n False) (initDisplay s) \<and>
                 sint n = min (sint hours - 1) 9999))"
proof -
  have h: "0 \<le> sint hours" using assms(2) by (simp add: word_sle_eq)
  have u: "updateDisplay hours s = showValueOnDisplay (hours - 1) s"
    using assms h by (simp add: updateDisplay_def word_sless_alt Let_def)
  have p: "sint (hours - 1) = sint hours - 1" using h by (rule sint_long_pred)
  show ?thesis
  proof (intro conjI impI)
    assume "hours = 0"
    then show "updateDisplay hours s =
        emit (Display_setSegments [0x40, 0x40, 0x40, 0x40]) (initDisplay s)"
      using u by (simp add: showValueOnDisplay_negative)
  next
    assume "hours \<noteq> 0"
    then have "sint hours \<noteq> 0" by (metis signed_0 signed_word_eqI)
    then have "\<not> hours - 1 <s 0" using h p by (simp add: word_sless_alt)
    then have "updateDisplay hours s =
        emit (Display_showNumberDec (if 9999 <s hours - 1 then 9999 else hours - 1) False)
          (initDisplay s)"
      using u by (simp add: showValueOnDisplay_number)
    moreover have "sint (if 9999 <s hours - 1 then 9999 else hours - 1) =
        min (sint hours - 1) 9999"
      using sint_clamp [of "hours - 1"] p by simp
    ultimately show "\<exists>n. updateDisplay hours s =
          emit (Display_showNumberDec n False) (initDisplay s) \<and>
        sint n = min (sint hours - 1) 9999"
      by blast
  qed
qed

theorem updateDisplay_hours_mode_witness:
  "displayMode initial_state = MODE_HOURS \<and> (0 :: long) \<le>s 0 \<and> (0 :: long) \<le>s 20000 \<and>
   (20000 :: long) \<noteq> 0 \<and>
   updateDisplay 0 initial_state =
     emit (Display_setSegments [0x40, 0x40, 0x40, 0x40]) (initDisplay initial_state) \<and>
   (\<exists>n. updateDisplay 20000 initial_state =
          emit (Display_showNumberDec n False) (initDisplay initial_state) \<and>
        sint n = 9999) \<and>
   updateDisplay 48 initial_state =
     emit (Display_showNumberDec 47 False) (initDisplay initial_state)"
proof -
  have m: "displayMode initial_state = MODE_HOURS" by (simp add: initial_state_def)
  have "updateDisplay 0 initial_state =
      emit (Display_setSegments [0x40, 0x40, 0x40, 0x40]) (initDisplay initial_state)"
    using updateDisplay_hours_mode [of initial_state 0] m by (simp add: word_sle_eq)
  moreover have "\<exists>n. updateDisplay 20000 initial_state =
          emit (Display_showNumberDec n False) (initDisplay initial_state) \<and>
        sint n = 9999"
    using updateDisplay_hours_mode [of initial_state 20000] m by (simp add: word_sle_eq)
  moreover have "updateDisplay 48 initial_state =
      emit (Display_showNumberDec 47 False) (initDisplay initial_state)"
    by (simp add: updateDisplay_def showValueOnDisplay_def initial_state_def initDisplay_def
          Let_def word_sless_alt)
  ultimately show ?thesis using m by (simp add: word_sle_eq)
qed

text \<open>
  C5: in days mode, for every computed value \<open>hours \<ge> 0\<close>, the display is sent the number
  \<open>floor (hours / 24)\<close>, clamped to the range from 0 to 9999: a number in every case,
  never the dashes.
\<close>

theorem updateDisplay_days_mode:
  assumes "displayMode s = MODE_DAYS" and "0 \<le>s hours"
  shows "\<exists>n. updateDisplay hours s = emit (Display_showNumberDec n False) (initDisplay s) \<and>
             sint n = min (sint hours div 24) 9999 \<and> 0 \<le> sint n \<and> sint n \<le> 9999"
proof -
  have h: "0 \<le> sint hours" using assms(2) by (simp add: word_sle_eq)
  have d: "sint (long_div hours 24) = sint hours div 24"
    using long_div_nonneg [of hours 24] h by simp
  have u: "updateDisplay hours s = showValueOnDisplay (long_div hours 24) s"
    using assms h by (simp add: updateDisplay_def word_sless_alt Let_def)
  have n: "0 \<le> sint hours div 24" using h by (simp add: pos_imp_zdiv_nonneg_iff)
  then have "\<not> long_div hours 24 <s 0" using d by (simp add: word_sless_alt)
  then have "updateDisplay hours s =
      emit (Display_showNumberDec
              (if 9999 <s long_div hours 24 then 9999 else long_div hours 24) False)
        (initDisplay s)"
    using u by (simp add: showValueOnDisplay_number)
  moreover have "sint (if 9999 <s long_div hours 24 then 9999 else long_div hours 24) =
      min (sint hours div 24) 9999"
    using sint_clamp [of "long_div hours 24"] d by simp
  ultimately show ?thesis using n by (intro exI conjI) (assumption, assumption, simp_all)
qed

theorem updateDisplay_days_mode_witness:
  "displayMode (initial_state\<lparr>displayMode := MODE_DAYS\<rparr>) = MODE_DAYS \<and>
   (0 :: long) \<le>s 240000 \<and>
   (\<exists>n. updateDisplay 240000 (initial_state\<lparr>displayMode := MODE_DAYS\<rparr>) =
          emit (Display_showNumberDec n False)
            (initDisplay (initial_state\<lparr>displayMode := MODE_DAYS\<rparr>)) \<and>
        sint n = 9999) \<and>
   (\<exists>n. updateDisplay 50 (initial_state\<lparr>displayMode := MODE_DAYS\<rparr>) =
          emit (Display_showNumberDec n False)
            (initDisplay (initial_state\<lparr>displayMode := MODE_DAYS\<rparr>)) \<and>
        sint n = 2)"
  using updateDisplay_days_mode [of "initial_state\<lparr>displayMode := MODE_DAYS\<rparr>" 240000]
    updateDisplay_days_mode [of "initial_state\<lparr>displayMode := MODE_DAYS\<rparr>" 50]
  by (auto simp: word_sle_eq)

text \<open>
  C6: a negative value, the sentinel \<open>-1\<close> of an unsynchronized clock among them, is
  shown as the four dashes whatever the display mode is: the calls made to the display
  are the same in hours mode and in days mode.
\<close>

theorem updateDisplay_unsynced:
  assumes "hours <s 0"
  shows "updateDisplay hours s =
           emit (Display_setSegments [0x40, 0x40, 0x40, 0x40]) (initDisplay s) \<and>
         trace (updateDisplay hours (s\<lparr>displayMode := MODE_HOURS\<rparr>)) =
           trace (updateDisplay hours (s\<lparr>displayMode := MODE_DAYS\<rparr>))"
proof -
  have "\<And>t. updateDisplay hours t =
           emit (Display_setSegments [0x40, 0x40, 0x40, 0x40]) (initDisplay t)"
    using assms by (rule updateDisplay_negative)
  then show ?thesis by (simp add: emit_def initDisplay_def)
qed

theorem updateDisplay_unsynced_witness:
  "(- 1 :: long) <s 0 \<and>
   updateDisplay (- 1) initial_state =
     emit (Display_setSegments [0x40, 0x40, 0x40, 0x40]) (initDisplay initial_state) \<and>
   trace (updateDisplay (- 1) (initial_state\<lparr>displayMode := MODE_HOURS\<rparr>)) =
     [Display_setBrightness 0x0f True, Display_clear,
      Display_setSegments [0x40, 0x40, 0x40, 0x40]] \<and>
   trace (updateDisplay (- 1) (initial_state\<lparr>displayMode := MODE_DAYS\<rparr>)) =
     [Display_setBrightness 0x0f True, Display_clear,
      Display_setSegments [0x40, 0x40, 0x40, 0x40]]"
proof -
  have n: "(- 1 :: long) <s 0" by (simp add: word_sless_alt)
  have t: "trace (updateDisplay (- 1) (initial_state\<lparr>displayMode := MODE_DAYS\<rparr>)) =
     [Display_setBrightness 0x0f True, Display_clear,
      Display_setSegments [0x40, 0x40, 0x40, 0x40]]"
    by (simp add: updateDisplay_negative [OF n] emit_def initDisplay_def initial_state_def)
  show ?thesis
    using updateDisplay_unsynced [OF n, of initial_state] n t by simp
qed

section \<open>The reporter\<close>

lemma trace_emit: "trace (emit e s) = trace s @ [e]"
  by (simp add: emit_def)

lemma status_lines_append: "status_lines (xs @ ys) = status_lines xs @ status_lines ys"
  by (simp add: status_lines_def map_filter_def)

lemma status_lines_updateDisplay:
  "status_lines (trace (updateDisplay h s)) = status_lines (trace s)"
  by (simp add: updateDisplay_def showValueOnDisplay_def initDisplay_def emit_def Let_def
        status_lines_def map_filter_def)

lemma lastReportedHours_emit: "lastReportedHours (emit e s) = lastReportedHours s"
  by (simp add: emit_def)

lemma lastReportedHours_initDisplay: "lastReportedHours (initDisplay s) = lastReportedHours s"
  by (simp add: initDisplay_def lastReportedHours_emit)

lemma lastReportedHours_showValueOnDisplay:
  "lastReportedHours (showValueOnDisplay val s) = lastReportedHours s"
  by (simp add: showValueOnDisplay_def Let_def lastReportedHours_emit
        lastReportedHours_initDisplay)

lemma lastReportedHours_updateDisplay:
  "lastReportedHours (updateDisplay h s) = lastReportedHours s"
  by (simp add: updateDisplay_def Let_def lastReportedHours_showValueOnDisplay)

lemma reportIfNeeded_negative:
  "computeHoursRemaining mktime now = Some hours \<Longrightarrow> hours <s 0 \<Longrightarrow>
   reportIfNeeded mktime now force s =
     Some (updateDisplay (- 1)
             (if force then emit (Serial_println ''[INFO] Waiting for time sync...'') s
              else s))"
  by (simp add: reportIfNeeded_def Let_def)

lemma reportIfNeeded_synced:
  "computeHoursRemaining mktime now = Some hours \<Longrightarrow> 0 \<le>s hours \<Longrightarrow>
   reportIfNeeded mktime now force s =
     (if force \<or> hours \<noteq> lastReportedHours s
      then Some (updateDisplay hours
             ((emit (Serial_printf RESULT_FORMAT
                 [Arg_ld (hours - 1), Arg_ld (long_div hours 24), Arg_ld (long_mod hours 24)])
                 s)
               \<lparr>lastReportedHours := hours\<rparr>))
      else Some s)"
  by (simp add: reportIfNeeded_def Let_def word_sless_alt word_sle_eq)

lemma compute_example: "computeHoursRemaining (mktime_tz TZ_Budapest) 1775793600 = Some 48"
  using compute_Budapest [of 1775793600] by (simp add: long_div_def signed_divide_int_def)

text \<open>
  C9: when \<open>reportIfNeeded\<close> meets a synchronized clock and the computed value
  \<open>hours\<close>, it prints one status line if forced or if \<open>hours\<close> differs from the last
  reported value, and none otherwise. The fields of that line are \<open>H = hours - 1\<close>,
  \<open>D = floor (hours / 24)\<close> and \<open>R = hours mod 24\<close>, so that \<open>H = 24 * D + R - 1\<close>
  and not \<open>24 * D + R\<close>.
\<close>

theorem reportIfNeeded_status_line:
  assumes "computeHoursRemaining mktime now = Some hours" and "0 \<le>s hours"
  shows "\<exists>s' H D R.
           reportIfNeeded mktime now force s = Some s' \<and>
           status_lines (trace s') =
             status_lines (trace s) @
               (if force \<or> hours \<noteq> lastReportedHours s
                then [[Arg_ld H, Arg_ld D, Arg_ld R]] else []) \<and>
           sint H = sint hours - 1 \<and> sint D = sint hours div 24 \<and>
           sint R = sint hours mod 24 \<and>
           sint H = 24 * sint D + sint R - 1 \<and> sint H \<noteq> 24 * sint D + sint R"
proof -
  let ?H = "hours - 1" and ?D = "long_div hours 24" and ?R = "long_mod hours 24"
  have h: "0 \<le> sint hours" using assms(2) by (simp add: word_sle_eq)
  have H: "sint ?H = sint hours - 1" using h by (rule sint_long_pred)
  have D: "sint ?D = sint hours div 24" using long_div_nonneg [of hours 24] h by simp
  have R: "sint ?R = sint hours mod 24" using long_mod_nonneg [of hours 24] h by simp
  have e: "sint ?H = 24 * sint ?D + sint ?R - 1" unfolding H D R by simp
  show ?thesis
  proof (cases "force \<or> hours \<noteq> lastReportedHours s")
    case True
    let ?s' = "updateDisplay hours
       ((emit (Serial_printf RESULT_FORMAT [Arg_ld ?H, Arg_ld ?D, Arg_ld ?R]) s)
          \<lparr>lastReportedHours := hours\<rparr>)"
    have r: "reportIfNeeded mktime now force s = Some ?s'"
      using reportIfNeeded_synced [OF assms, of force s] True by simp
    have "status_lines (trace ?s') =
        status_lines (trace s) @ [[Arg_ld ?H, Arg_ld ?D, Arg_ld ?R]]"
      by (simp add: status_lines_updateDisplay trace_emit status_lines_append)
         (simp add: status_lines_def map_filter_def)
    then have "status_lines (trace ?s') =
        status_lines (trace s) @
          (if force \<or> hours \<noteq> lastReportedHours s
           then [[Arg_ld ?H, Arg_ld ?D, Arg_ld ?R]] else [])"
      using True by simp
    with r H D R e show ?thesis by (intro exI conjI) (assumption+, simp)
  next
    case False
    have r: "reportIfNeeded mktime now force s = Some s"
      using reportIfNeeded_synced [OF assms, of force s] False by simp
    have "status_lines (trace s) =
        status_lines (trace s) @
          (if force \<or> hours \<noteq> lastReportedHours s
           then [[Arg_ld ?H, Arg_ld ?D, Arg_ld ?R]] else [])"
      using False by simp
    with r H D R e show ?thesis by (intro exI conjI) (assumption+, simp)
  qed
qed

theorem reportIfNeeded_status_line_witness:
  "computeHoursRemaining (mktime_tz TZ_Budapest) 1775793600 = Some 48 \<and> (0 :: long) \<le>s 48 \<and>
   (\<exists>s' H D R.
      reportIfNeeded (mktime_tz TZ_Budapest) 1775793600 False initial_state = Some s' \<and>
      status_lines (trace s') = [[Arg_ld H, Arg_ld D, Arg_ld R]] \<and>
      sint H = 47 \<and> sint D = 2 \<and> sint R = 0)"
proof -
  have n: "(0 :: long) \<le>s 48" by (simp add: word_sle_eq)
  have i: "lastReportedHours initial_state = - 1" "trace initial_state = []"
    by (simp_all add: initial_state_def)
  show ?thesis
    using reportIfNeeded_status_line [OF compute_example n, of False initial_state] n
    by (simp add: compute_example i status_lines_def) blast
qed

section \<open>The last reported value\<close>

lemma reportIfNeeded_lastReportedHours:
  assumes "reportIfNeeded mktime now force s = Some s'"
  shows "lastReportedHours s' = lastReportedHours s \<or>
         (computeHoursRemaining mktime now = Some (lastReportedHours s') \<and>
          0 \<le>s lastReportedHours s')"
proof -
  from assms obtain hours where c: "computeHoursRemaining mktime now = Some hours"
    by (auto simp: reportIfNeeded_def split: option.splits)
  show ?thesis
  proof (cases "hours <s 0")
    case True
    then have "s' = updateDisplay (- 1)
         (if force then emit (Serial_println ''[INFO] Waiting for time sync...'') s else s)"
      using assms reportIfNeeded_negative [OF c True, of force s] by simp
    then show ?thesis by (simp add: lastReportedHours_updateDisplay lastReportedHours_emit)
  next
    case False
    then have n: "0 \<le>s hours" by (simp add: word_sless_alt word_sle_eq)
    show ?thesis
    proof (cases "force \<or> hours \<noteq> lastReportedHours s")
      case True
      then have "lastReportedHours s' = hours"
        using assms reportIfNeeded_synced [OF c n, of force s]
        by (auto simp: lastReportedHours_updateDisplay)
      then show ?thesis using c n by simp
    next
      case False
      then show ?thesis using assms reportIfNeeded_synced [OF c n, of force s] by simp
    qed
  qed
qed

lemma lastReportedHours_waitForWiFi:
  "waitForWiFi start ps s = Some s' \<Longrightarrow> lastReportedHours s' = lastReportedHours s"
proof (induction ps arbitrary: s)
  case Nil
  then show ?case by simp
next
  case (Cons p ps)
  obtain connected ms where p: "p = (connected, ms)" by (cases p)
  show ?case
  proof (cases "\<not> connected \<and> ms - start < 20000")
    case True
    then have "waitForWiFi start ps (emit (Serial_print ''.'') (emit (Delay 500) s)) = Some s'"
      using Cons.prems p by simp
    then have "lastReportedHours s' =
        lastReportedHours (emit (Serial_print ''.'') (emit (Delay 500) s))"
      by (rule Cons.IH)
    then show ?thesis by (simp add: lastReportedHours_emit)
  next
    case False
    then show ?thesis using Cons.prems p by auto
  qed
qed

lemma lastReportedHours_connectWiFi:
  "connectWiFi r s = Some s' \<Longrightarrow> lastReportedHours s' = lastReportedHours s"
  by (auto simp: connectWiFi_def Let_def bind_eq_Some_conv lastReportedHours_emit
           dest!: lastReportedHours_waitForWiFi split: if_splits)

lemma lastReportedHours_ensureTimeResync:
  "lastReportedHours (ensureTimeResync r s) = lastReportedHours s"
  by (simp add: ensureTimeResync_def Let_def lastReportedHours_emit)

lemma lastReportedHours_setup_fn:
  "setup_fn r s = Some s' \<Longrightarrow> lastReportedHours s' = lastReportedHours s"
  by (auto simp: setup_fn_def Let_def bind_eq_Some_conv lastReportedHours_emit
           lastReportedHours_initDisplay lastReportedHours_updateDisplay
           dest!: lastReportedHours_connectWiFi)

lemma loop_lastReportedHours:
  assumes "loop r s = Some s'"
  shows "lastReportedHours s' = lastReportedHours s \<or> 0 \<le>s lastReportedHours s'"
proof -
  from assms have "\<exists>s1 s3 s4 s5.
    (if \<not> loop_connected r then connectWiFi (loop_wifi r) s else Some s) = Some s1 \<and>
    (if PRINT_INTERVAL_MS \<le> loop_ms r - lastPrint (ensureTimeResync (loop_resync r) s1)
     then Option.bind
            (reportIfNeeded (clock_mktime (report_clock r)) (clock_now (report_clock r))
               False (ensureTimeResync (loop_resync r) s1))
            (\<lambda>s'. Some (s'\<lparr>lastPrint := loop_ms r\<rparr>))
     else Some (ensureTimeResync (loop_resync r) s1)) = Some s3 \<and>
    (if DISPLAY_MODE_DURATION_MS \<le> loop_ms r - lastModeSwitch s3
     then Option.bind
            (computeHoursRemaining (clock_mktime (switch_clock r))
               (clock_now (switch_clock r)))
            (\<lambda>hrs. Some (updateDisplay hrs
               (s3\<lparr>displayMode :=
                     (if displayMode s3 = MODE_HOURS then MODE_DAYS else MODE_HOURS),
                   lastModeSwitch := loop_ms r\<rparr>)))
     else Some s3) = Some s4 \<and>
    (if lastReportedHours s4 <s 0
     then reportIfNeeded (clock_mktime (forced_clock r)) (clock_now (forced_clock r))
            True s4
     else Some s4) = Some s5 \<and>
    s' = emit (Delay 1000) s5"
    unfolding loop_def Let_def bind_eq_Some_conv
    by (elim exE conjE, intro exI conjI) (assumption+, simp)
  then obtain s1 s3 s4 s5 where
    s1: "(if \<not> loop_connected r then connectWiFi (loop_wifi r) s else Some s) = Some s1" and
    s3: "(if PRINT_INTERVAL_MS \<le> loop_ms r - lastPrint (ensureTimeResync (loop_resync r) s1)
          then Option.bind
                 (reportIfNeeded (clock_mktime (report_clock r)) (clock_now (report_clock r))
                    False (ensureTimeResync (loop_resync r) s1))
                 (\<lambda>s'. Some (s'\<lparr>lastPrint := loop_ms r\<rparr>))
          else Some (ensureTimeResync (loop_resync r) s1)) = Some s3" and
    s4: "(if DISPLAY_MODE_DURATION_MS \<le> loop_ms r - lastModeSwitch s3
          then Option.bind
                 (computeHoursRemaining (clock_mktime (switch_clock r))
                    (clock_now (switch_clock r)))
                 (\<lambda>hrs. Some (updateDisplay hrs
                    (s3\<lparr>displayMode :=
                          (if displayMode s3 = MODE_HOURS then MODE_DAYS else MODE_HOURS),
                        lastModeSwitch := loop_ms r\<rparr>)))
          else Some s3) = Some s4" and
    s5: "(if lastReportedHours s4 <s 0
          then reportIfNeeded (clock_mktime (forced_clock r)) (clock_now (forced_clock r))
                 True s4
          else Some s4) = Some s5" and
    e: "s' = emit (Delay 1000) s5"
    by blast
  have 1: "lastReportedHours s1 = lastReportedHours s"
    using s1 by (auto dest: lastReportedHours_connectWiFi split: if_splits)
  have 3: "lastReportedHours s3 = lastReportedHours s1 \<or> 0 \<le>s lastReportedHours s3"
    using s3
    by (auto simp: bind_eq_Some_conv lastReportedHours_ensureTimeResync
             dest!: reportIfNeeded_lastReportedHours split: if_splits)
  have 4: "lastReportedHours s4 = lastReportedHours s3"
    using s4 by (auto simp: bind_eq_Some_conv lastReportedHours_updateDisplay split: if_splits)
  have 5: "lastReportedHours s5 = lastReportedHours s4 \<or> 0 \<le>s lastReportedHours s5"
    using s5 by (auto dest!: reportIfNeeded_lastReportedHours split: if_splits)
  have "lastReportedHours s' = lastReportedHours s5" by (simp add: e lastReportedHours_emit)
  then show ?thesis using 1 3 4 5 by auto
qed

lemma run_lastReportedHours:
  "run rs s = Some s' \<Longrightarrow>
   lastReportedHours s' = lastReportedHours s \<or> 0 \<le>s lastReportedHours s'"
proof (induction rs arbitrary: s)
  case Nil
  then show ?case by simp
next
  case (Cons r rs)
  from Cons.prems obtain s1 where l: "loop r s = Some s1" and r: "run rs s1 = Some s'"
    by (auto split: option.splits)
  from r have "lastReportedHours s' = lastReportedHours s1 \<or> 0 \<le>s lastReportedHours s'"
    by (rule Cons.IH)
  then show ?case using loop_lastReportedHours [OF l] by auto
qed

text \<open>
  C10: when \<open>computeHoursRemaining\<close> yields the sentinel \<open>-1\<close>, \<open>reportIfNeeded\<close>
  sends the dashes to the display, prints no status line and leaves
  \<open>lastReportedHours\<close> as it was. Whatever the clock reads, \<open>reportIfNeeded\<close> returns
  (the target instant lying before 2038) and either leaves \<open>lastReportedHours\<close> unchanged or sets it to the computed value, which is then
  non-negative. Hence over any number of passes of \<open>loop()\<close> the variable is unchanged or
  non-negative: once non-negative it stays so, and in a run of the program from its
  initial state it is \<open>-1\<close> or non-negative.
\<close>

theorem lastReportedHours_never_reset:
  "(computeHoursRemaining mktime now = Some (- 1) \<longrightarrow>
      (\<exists>s'. reportIfNeeded mktime now force s = Some s' \<and>
            lastReportedHours s' = lastReportedHours s \<and>
            last (trace s') = Display_setSegments [0x40, 0x40, 0x40, 0x40] \<and>
            status_lines (trace s') = status_lines (trace s))) \<and>
   (mktime target_tm < 2 ^ 31 \<longrightarrow> (\<exists>s'. reportIfNeeded mktime now force s = Some s')) \<and>
   (\<forall>s'. reportIfNeeded mktime now force s = Some s' \<longrightarrow>
      lastReportedHours s' = lastReportedHours s \<or>
      (computeHoursRemaining mktime now = Some (lastReportedHours s') \<and>
       0 \<le>s lastReportedHours s')) \<and>
   (\<forall>s'. run rs s = Some s' \<longrightarrow>
      (lastReportedHours s' = lastReportedHours s \<or> 0 \<le>s lastReportedHours s') \<and>
      (0 \<le>s lastReportedHours s \<longrightarrow> 0 \<le>s lastReportedHours s')) \<and>
   (\<forall>s'. program r rs = Some s' \<longrightarrow>
      lastReportedHours s' = - 1 \<or> 0 \<le>s lastReportedHours s')"
proof (intro conjI allI impI)
  assume c: "computeHoursRemaining mktime now = Some (- 1)"
  let ?s1 = "if force then emit (Serial_println ''[INFO] Waiting for time sync...'') s else s"
  have n: "(- 1 :: long) <s 0" by (simp add: word_sless_alt)
  have r: "reportIfNeeded mktime now force s = Some (updateDisplay (- 1) ?s1)"
    using c n by (rule reportIfNeeded_negative)
  have u: "updateDisplay (- 1) ?s1 =
      emit (Display_setSegments [0x40, 0x40, 0x40, 0x40]) (initDisplay ?s1)"
    using n by (rule updateDisplay_negative)
  have "lastReportedHours (updateDisplay (- 1) ?s1) = lastReportedHours s"
    by (simp add: lastReportedHours_updateDisplay lastReportedHours_emit)
  moreover have "last (trace (updateDisplay (- 1) ?s1)) =
      Display_setSegments [0x40, 0x40, 0x40, 0x40]"
    unfolding u by (simp add: trace_emit)
  moreover have "status_lines (trace (updateDisplay (- 1) ?s1)) = status_lines (trace s)"
    by (simp add: status_lines_updateDisplay trace_emit status_lines_append)
       (simp add: status_lines_def map_filter_def)
  ultimately show "\<exists>s'. reportIfNeeded mktime now force s = Some s' \<and>
            lastReportedHours s' = lastReportedHours s \<and>
            last (trace s') = Display_setSegments [0x40, 0x40, 0x40, 0x40] \<and>
            status_lines (trace s') = status_lines (trace s)"
    using r by blast
next
  assume "mktime target_tm < 2 ^ 31"
  then obtain h where "computeHoursRemaining mktime now = Some h"
    using compute_defined [of mktime now] by blast
  then show "\<exists>s'. reportIfNeeded mktime now force s = Some s'"
    by (simp add: reportIfNeeded_def Let_def)
next
  fix s' assume "reportIfNeeded mktime now force s = Some s'"
  then show "lastReportedHours s' = lastReportedHours s \<or>
      (computeHoursRemaining mktime now = Some (lastReportedHours s') \<and>
       0 \<le>s lastReportedHours s')"
    by (rule reportIfNeeded_lastReportedHours)
next
  fix s' assume "run rs s = Some s'"
  then show "lastReportedHours s' = lastReportedHours s \<or> 0 \<le>s lastReportedHours s'"
    by (rule run_lastReportedHours)
next
  fix s' assume "run rs s = Some s'" and "0 \<le>s lastReportedHours s"
  then show "0 \<le>s lastReportedHours s'"
    using run_lastReportedHours [of rs s s'] by auto
next
  fix s' assume "program r rs = Some s'"
  then obtain s0 where a: "setup_fn r initial_state = Some s0" and b: "run rs s0 = Some s'"
    by (auto simp: program_def split: option.splits)
  have "lastReportedHours s0 = - 1"
    using lastReportedHours_setup_fn [OF a] by (simp add: initial_state_def)
  then show "lastReportedHours s' = - 1 \<or> 0 \<le>s lastReportedHours s'"
    using run_lastReportedHours [OF b] by auto
qed

lemma compute_unset: "computeHoursRemaining (mktime_tz TZ_Budapest) 61 = Some (- 1)"
  by (simp add: computeHoursRemaining_def)

lemmas example_run_simps =
  program_def setup_fn_def example_setup_def example_loop_def loop_def
  connectWiFi_def ensureTimeResync_def reportIfNeeded_def updateDisplay_def
  showValueOnDisplay_def initDisplay_def emit_def initial_state_def Let_def
  compute_example compute_unset PRINT_INTERVAL_MS_def NTP_RESYNC_INTERVAL_MS_def
  DISPLAY_MODE_DURATION_MS_def word_sless_alt word_sle_eq long_div_def long_mod_def
  signed_divide_int_def signed_modulo_int_def

theorem lastReportedHours_never_reset_witness:
  "computeHoursRemaining (mktime_tz TZ_Budapest) 61 = Some (- 1) \<and>
   mktime_tz TZ_Budapest target_tm < 2 ^ 31 \<and>
   map_option lastReportedHours
     (reportIfNeeded (mktime_tz TZ_Budapest) 61 False
        (initial_state\<lparr>lastReportedHours := 48\<rparr>)) = Some 48 \<and>
   (0 :: long) \<le>s lastReportedHours (initial_state\<lparr>lastReportedHours := 48\<rparr>) \<and>
   map_option lastReportedHours
     (run [example_loop] (initial_state\<lparr>lastReportedHours := 48\<rparr>)) = Some 48 \<and>
   map_option lastReportedHours (program example_setup [example_loop]) = Some 48 \<and>
   (0 :: long) \<le>s 48"
  using lastReportedHours_never_reset
    [of "mktime_tz TZ_Budapest" 61 False "initial_state\<lparr>lastReportedHours := 48\<rparr>"
        "[example_loop]" example_setup]
  by (simp add: example_run_simps mktime_target)

section \<open>The time zone the program runs under\<close>

lemma mktime_fixed_offset:
  assumes "std_offset tz = 0" and "dst_offset tz = 0"
  shows "mktime_tz tz target_tm = 1775973600"
  using assms
  by (simp add: mktime_tz_def target_tm_def TARGET_def days_from_civil_def Let_def)

lemma zone_emit: "tz_of_trace (trace (emit e s)) = tz_event e (tz_of_trace (trace s))"
  by (simp add: emit_def tz_of_trace_def)

lemma zone_initDisplay: "tz_of_trace (trace (initDisplay s)) = tz_of_trace (trace s)"
  by (simp add: initDisplay_def zone_emit)

lemma zone_showValueOnDisplay:
  "tz_of_trace (trace (showValueOnDisplay val s)) = tz_of_trace (trace s)"
  by (simp add: showValueOnDisplay_def Let_def zone_emit zone_initDisplay)

lemma zone_updateDisplay: "tz_of_trace (trace (updateDisplay h s)) = tz_of_trace (trace s)"
  by (simp add: updateDisplay_def Let_def zone_showValueOnDisplay)

lemma zone_reportIfNeeded:
  "reportIfNeeded mktime now force s = Some s' \<Longrightarrow>
   tz_of_trace (trace s') = tz_of_trace (trace s)"
  by (auto simp: reportIfNeeded_def Let_def zone_updateDisplay zone_emit
           split: option.splits if_splits)

lemma zone_waitForWiFi:
  "waitForWiFi start ps s = Some s' \<Longrightarrow> tz_of_trace (trace s') = tz_of_trace (trace s)"
proof (induction ps arbitrary: s)
  case Nil
  then show ?case by simp
next
  case (Cons p ps)
  obtain connected ms where p: "p = (connected, ms)" by (cases p)
  show ?case
  proof (cases "\<not> connected \<and> ms - start < 20000")
    case True
    then have "waitForWiFi start ps (emit (Serial_print ''.'') (emit (Delay 500) s)) = Some s'"
      using Cons.prems p by simp
    then have "tz_of_trace (trace s') =
        tz_of_trace (trace (emit (Serial_print ''.'') (emit (Delay 500) s)))"
      by (rule Cons.IH)
    then show ?thesis by (simp add: zone_emit)
  next
    case False
    then show ?thesis using Cons.prems p by auto
  qed
qed

lemma zone_connectWiFi:
  assumes "connectWiFi r s = Some s'"
    and "std_offset (tz_of_trace (trace s)) = 0" and "dst_offset (tz_of_trace (trace s)) = 0"
  shows "std_offset (tz_of_trace (trace s')) = 0 \<and> dst_offset (tz_of_trace (trace s')) = 0"
  using assms
  by (auto simp: connectWiFi_def Let_def bind_eq_Some_conv zone_emit TZ_unset_def
           dest!: zone_waitForWiFi split: if_splits)

lemma zone_ensureTimeResync:
  assumes "std_offset (tz_of_trace (trace s)) = 0" and "dst_offset (tz_of_trace (trace s)) = 0"
  shows "std_offset (tz_of_trace (trace (ensureTimeResync r s))) = 0 \<and>
         dst_offset (tz_of_trace (trace (ensureTimeResync r s))) = 0"
  using assms by (simp add: ensureTimeResync_def Let_def zone_emit TZ_unset_def)

lemma zone_setup_fn:
  assumes "setup_fn r initial_state = Some s"
  shows "std_offset (tz_of_trace (trace s)) = 0 \<and> dst_offset (tz_of_trace (trace s)) = 0"
proof -
  let ?s6 = "updateDisplay (- 1) (initDisplay (emit (Serial_println ''Booting...'')
      (emit (Serial_println []) (emit (Delay 200) (emit (Serial_begin 115200) initial_state)))))"
  from assms obtain s7 where c: "connectWiFi (setup_wifi r) ?s6 = Some s7"
    and e: "s = s7\<lparr>lastPrint := setup_print_ms r, lastModeSwitch := setup_mode_ms r\<rparr>"
    by (auto simp: setup_fn_def Let_def bind_eq_Some_conv)
  have z: "tz_of_trace (trace ?s6) = TZ_unset"
    by (simp add: zone_updateDisplay zone_initDisplay zone_emit)
       (simp add: tz_of_trace_def initial_state_def)
  have "std_offset (tz_of_trace (trace s7)) = 0 \<and> dst_offset (tz_of_trace (trace s7)) = 0"
    using c by (rule zone_connectWiFi) (simp_all add: z TZ_unset_def)
  then show ?thesis by (simp add: e)
qed


lemma loop_steps:
  assumes "loop r s = Some s'"
  shows "\<exists>s1 s3 s4 s5.
    (if \<not> loop_connected r then connectWiFi (loop_wifi r) s else Some s) = Some s1 \<and>
    (if PRINT_INTERVAL_MS \<le> loop_ms r - lastPrint (ensureTimeResync (loop_resync r) s1)
     then Option.bind
            (reportIfNeeded (clock_mktime (report_clock r)) (clock_now (report_clock r))
               False (ensureTimeResync (loop_resync r) s1))
            (\<lambda>s'. Some (s'\<lparr>lastPrint := loop_ms r\<rparr>))
     else Some (ensureTimeResync (loop_resync r) s1)) = Some s3 \<and>
    (if DISPLAY_MODE_DURATION_MS \<le> loop_ms r - lastModeSwitch s3
     then Option.bind
            (computeHoursRemaining (clock_mktime (switch_clock r))
               (clock_now (switch_clock r)))
            (\<lambda>hrs. Some (updateDisplay hrs
               (s3\<lparr>displayMode :=
                     (if displayMode s3 = MODE_HOURS then MODE_DAYS else MODE_HOURS),
                   lastModeSwitch := loop_ms r\<rparr>)))
     else Some s3) = Some s4 \<and>
    (if lastReportedHours s4 <s 0
     then reportIfNeeded (clock_mktime (forced_clock r)) (clock_now (forced_clock r))
            True s4
     else Some s4) = Some s5 \<and>
    s' = emit (Delay 1000) s5"
  using assms unfolding loop_def Let_def bind_eq_Some_conv
  by (elim exE conjE, intro exI conjI) (assumption+, simp)

lemma zone_loop:
  assumes "loop r s = Some s'"
    and "std_offset (tz_of_trace (trace s)) = 0" and "dst_offset (tz_of_trace (trace s)) = 0"
  shows "std_offset (tz_of_trace (trace s')) = 0 \<and> dst_offset (tz_of_trace (trace s')) = 0"
proof -
  from loop_steps [OF assms(1)] obtain s1 s3 s4 s5 where
    s1: "(if \<not> loop_connected r then connectWiFi (loop_wifi r) s else Some s) = Some s1" and
    s3: "(if PRINT_INTERVAL_MS \<le> loop_ms r - lastPrint (ensureTimeResync (loop_resync r) s1)
          then Option.bind
                 (reportIfNeeded (clock_mktime (report_clock r)) (clock_now (report_clock r))
                    False (ensureTimeResync (loop_resync r) s1))
                 (\<lambda>s'. Some (s'\<lparr>lastPrint := loop_ms r\<rparr>))
          else Some (ensureTimeResync (loop_resync r) s1)) = Some s3" and
    s4: "(if DISPLAY_MODE_DURATION_MS \<le> loop_ms r - lastModeSwitch s3
          then Option.bind
                 (computeHoursRemaining (clock_mktime (switch_clock r))
                    (clock_now (switch_clock r)))
                 (\<lambda>hrs. Some (updateDisplay hrs
                    (s3\<lparr>displayMode :=
                          (if displayMode s3 = MODE_HOURS then MODE_DAYS else MODE_HOURS),
                        lastModeSwitch := loop_ms r\<rparr>)))
          else Some s3) = Some s4" and
    s5: "(if lastReportedHours s4 <s 0
          then reportIfNeeded (clock_mktime (forced_clock r)) (clock_now (forced_clock r))
                 True s4
          else Some s4) = Some s5" and
    e: "s' = emit (Delay 1000) s5"
    by blast
  have 1: "std_offset (tz_of_trace (trace s1)) = 0 \<and> dst_offset (tz_of_trace (trace s1)) = 0"
  proof (cases "loop_connected r")
    case True
    then show ?thesis using s1 assms(2,3) by simp
  next
    case False
    then have "connectWiFi (loop_wifi r) s = Some s1" using s1 by simp
    then show ?thesis using assms(2,3) by (rule zone_connectWiFi)
  qed
  then have 2: "std_offset (tz_of_trace (trace (ensureTimeResync (loop_resync r) s1))) = 0 \<and>
      dst_offset (tz_of_trace (trace (ensureTimeResync (loop_resync r) s1))) = 0"
    using zone_ensureTimeResync [of s1 "loop_resync r"] by simp
  have 3: "tz_of_trace (trace s3) =
      tz_of_trace (trace (ensureTimeResync (loop_resync r) s1))"
    using s3 by (auto simp: bind_eq_Some_conv dest!: zone_reportIfNeeded split: if_splits)
  have 4: "tz_of_trace (trace s4) = tz_of_trace (trace s3)"
    using s4 by (auto simp: bind_eq_Some_conv zone_updateDisplay split: if_splits)
  have 5: "tz_of_trace (trace s5) = tz_of_trace (trace s4)"
    using s5 by (auto dest!: zone_reportIfNeeded split: if_splits)
  have "tz_of_trace (trace s') = tz_of_trace (trace s5)" by (simp add: e zone_emit)
  then show ?thesis using 2 3 4 5 by simp
qed

lemma zone_run:
  "run rs s = Some s' \<Longrightarrow>
   std_offset (tz_of_trace (trace s)) = 0 \<and> dst_offset (tz_of_trace (trace s)) = 0 \<Longrightarrow>
   std_offset (tz_of_trace (trace s')) = 0 \<and> dst_offset (tz_of_trace (trace s')) = 0"
proof (induction rs arbitrary: s)
  case Nil
  then show ?case by simp
next
  case (Cons r rs)
  from Cons.prems(1) obtain s1 where l: "loop r s = Some s1" and r: "run rs s1 = Some s'"
    by (auto split: option.splits)
  have "std_offset (tz_of_trace (trace s1)) = 0 \<and> dst_offset (tz_of_trace (trace s1)) = 0"
    using l Cons.prems(2) zone_loop by blast
  with r show ?case by (rule Cons.IH)
qed

lemma zone_program:
  assumes "program r rs = Some s"
  shows "std_offset (tz_of_trace (trace s)) = 0 \<and> dst_offset (tz_of_trace (trace s)) = 0"
proof -
  from assms obtain s0 where a: "setup_fn r initial_state = Some s0" and b: "run rs s0 = Some s"
    by (auto simp: program_def split: option.splits)
  from b zone_setup_fn [OF a] show ?thesis by (rule zone_run)
qed

lemma trace_example_setup:
  "map_option trace (program example_setup []) =
     Some [Serial_begin 115200, Delay 200, Serial_println [], Serial_println ''Booting...'',
           Display_setBrightness 0x0f True, Display_clear,
           Display_setSegments [0x40, 0x40, 0x40, 0x40],
           Serial_printf
             (''[INFO] Connecting to WiFi SSID '' @ [CHR 0x27] @ ''%s'' @ [CHR 0x27] @
              ''...'' @ [CHR 0x0A]) [Arg_s ''WIFISSID''],
           WiFi_mode_STA, WiFi_begin ''WIFISSID'' ''WIFIPASS'', Delay 500, Serial_print ''.'',
           Serial_println [], Serial_print ''[INFO] WiFi connected. IP: '',
           Serial_println_ip 0xC0A80117,
           Setenv ''TZ'' ''CET-1CEST,M3.5.0/2,M10.5.0/3'' 1, Tzset,
           ConfigTime 0 0 ''pool.ntp.org'' ''time.nist.gov'']"
  by (simp add: program_def setup_fn_def example_setup_def connectWiFi_def updateDisplay_def
        showValueOnDisplay_def initDisplay_def emit_def initial_state_def Let_def
        WIFI_SSID_def WIFI_PASSWORD_def word_sless_alt)

text \<open>
  C8: the claim expects 48 at 2026-04-10 06:00:00 Budapest time (the instant 1775793600),
  the target being 2026-04-12 06:00:00 Budapest time (the instant 1775966400); under the
  zone of line 120 alone that is what \<open>computeHoursRemaining\<close> would return. The program
  does not run under that zone. Every \<open>setenv\<close> of line 120 is followed by the
  \<open>configTime(0, 0, ...)\<close> of line 122, which sets both offsets to 0: in every state
  that \<open>setup()\<close> and any number of passes of \<open>loop()\<close> lead to, the zone in force
  is UTC, \<open>mktime\<close> reads the target as 06:00:00 UTC (the instant 1775973600), and at
  the instant 1775793600 \<open>computeHoursRemaining\<close> returns 50.
\<close>

theorem computeHoursRemaining_under_configTime:
  "(\<forall>s. program r rs = Some s \<longrightarrow>
      std_offset (tz_of_trace (trace s)) = 0 \<and> dst_offset (tz_of_trace (trace s)) = 0 \<and>
      mktime_tz (tz_of_trace (trace s)) target_tm = 1775973600 \<and>
      computeHoursRemaining (mktime_tz (tz_of_trace (trace s))) 1775793600 = Some 50) \<and>
   mktime_tz TZ_Budapest target_tm = 1775966400 \<and>
   mktime_tz TZ_Budapest
     \<lparr>tm_sec = 0, tm_min = 0, tm_hour = 6, tm_mday = 10, tm_mon = 3, tm_year = 126,
      tm_wday = 0, tm_yday = 0, tm_isdst = - 1\<rparr> = 1775793600 \<and>
   computeHoursRemaining (mktime_tz TZ_Budapest) 1775793600 = Some 48"
proof (intro conjI allI impI)
  fix s assume p: "program r rs = Some s"
  then have o: "std_offset (tz_of_trace (trace s)) = 0 \<and> dst_offset (tz_of_trace (trace s)) = 0"
    by (rule zone_program)
  then show "std_offset (tz_of_trace (trace s)) = 0" "dst_offset (tz_of_trace (trace s)) = 0"
    by simp_all
  from o show m: "mktime_tz (tz_of_trace (trace s)) target_tm = 1775973600"
    by (simp add: mktime_fixed_offset)
  show "computeHoursRemaining (mktime_tz (tz_of_trace (trace s))) 1775793600 = Some 50"
    using compute_before_target [of 1775793600 "mktime_tz (tz_of_trace (trace s))"]
    by (simp add: m long_div_def signed_divide_int_def)
next
  show "mktime_tz TZ_Budapest target_tm = 1775966400" by (rule mktime_target)
  show "mktime_tz TZ_Budapest
     \<lparr>tm_sec = 0, tm_min = 0, tm_hour = 6, tm_mday = 10, tm_mon = 3, tm_year = 126,
      tm_wday = 0, tm_yday = 0, tm_isdst = - 1\<rparr> = 1775793600"
    by (simp add: mktime_tz_def TZ_Budapest_def days_from_civil_def
          rule_day_number_def weekday_def days_in_month_def is_leap_def Let_def)
  show "computeHoursRemaining (mktime_tz TZ_Budapest) 1775793600 = Some 48"
    using compute_Budapest [of 1775793600]
    by (simp add: long_div_def signed_divide_int_def)
qed

theorem computeHoursRemaining_under_configTime_witness:
  "(\<exists>s. program example_setup [] = Some s \<and>
        last (trace s) = ConfigTime 0 0 ''pool.ntp.org'' ''time.nist.gov'' \<and>
        mktime_tz (tz_of_trace (trace s)) target_tm = 1775973600 \<and>
        computeHoursRemaining (mktime_tz (tz_of_trace (trace s))) 1775793600 = Some 50) \<and>
   computeHoursRemaining (mktime_tz TZ_Budapest) 1775793600 = Some 48"
proof -
  obtain s where s: "program example_setup [] = Some s"
    using trace_example_setup by (cases "program example_setup []") auto
  then have "last (trace s) = ConfigTime 0 0 ''pool.ntp.org'' ''time.nist.gov''"
    using trace_example_setup by simp
  then show ?thesis
    using computeHoursRemaining_under_configTime [of example_setup "[]"] s by simp
qed

end
